theory Spec2Isabelle
  imports Main "HOL-Library.AList"
begin

section \<open>Data model of the presentation layer (frontend/src/App.tsx)\<close>

text \<open>
  The \<^verbatim>\<open>Issue\<close> and \<^verbatim>\<open>Session\<close> interfaces. An optional field \<^verbatim>\<open>f?: T\<close> is a
  \<open>T option\<close>, \<open>None\<close> standing for a key that the JSON payload does not carry. The
  session's optional \<^verbatim>\<open>repo\<close> is called \<open>session_repo\<close>, since the component state
  has a \<open>repo\<close> of its own. Labels are pairs (name, color).
\<close>

record issue =
  number :: nat
  title :: string
  body :: string
  state :: string
  html_url :: string
  created_at :: string
  updated_at :: string
  labels :: "(string \<times> string) list"

record session =
  session_id :: string
  status :: string
  message :: "string option"
  session_url :: "string option"
  session_repo :: "string option"
  issue_number :: "nat option"
  confidence_score :: "int option"
  action_plan :: "string option"

text \<open>
  The state of the \<^verbatim>\<open>App\<close> component: one field for each \<^verbatim>\<open>useState\<close> cell that the
  handlers read or write, and the browser's \<^verbatim>\<open>localStorage\<close>, which the component
  reads on start-up and writes in three effects. \<^verbatim>\<open>sessions\<close> is a
  \<^verbatim>\<open>Record<number, Session>\<close>: an association list from issue numbers to session
  records.
\<close>

record app_state =
  repo :: string
  githubToken :: string
  devinApiKey :: string
  issues :: "issue list"
  loading :: bool
  error :: string
  sessions :: "(nat \<times> session) list"
  configured :: bool
  localStorage :: "string \<rightharpoonup> string"

subsection \<open>Objects keyed by issue number\<close>

text \<open>
  \<^verbatim>\<open>{...prev, [issueNumber]: data}\<close> copies the object and sets one key;
  \<^verbatim>\<open>Object.entries\<close> lists integer keys in ascending order.
\<close>

definition spread_set :: "(nat \<times> 'v) list \<Rightarrow> nat \<Rightarrow> 'v \<Rightarrow> (nat \<times> 'v) list" where
  "spread_set prev issueNumber data = AList.update issueNumber data prev"

definition Object_entries :: "(nat \<times> 'v) list \<Rightarrow> (nat \<times> 'v) list" where
  "Object_entries obj = sort_key fst obj"

subsection \<open>Requests and their outcomes\<close>

text \<open>
  A request is its method, its path below \<^verbatim>\<open>API_URL\<close> and either the query parameters
  (before \<^verbatim>\<open>encodeURIComponent\<close>) or the fields of the object given to
  \<^verbatim>\<open>JSON.stringify\<close>.
\<close>

datatype json = JString string | JNumber nat

datatype request =
  Get string "(string \<times> string) list"
| Post string "(string \<times> json) list"

text \<open>
  What a \<^verbatim>\<open>catch (err)\<close> clause receives: an \<^verbatim>\<open>Error\<close> with its message, or any other
  thrown value. A \<^verbatim>\<open>fetch\<close> either rejects, or resolves to a response with its \<^verbatim>\<open>ok\<close>
  flag and the outcome of \<^verbatim>\<open>response.json()\<close>.
\<close>

datatype thrown = Error string | NonError

datatype 'a fetch_result =
  Rejected thrown
| Response bool "thrown + 'a"

text \<open>
  The body of each \<^verbatim>\<open>try\<close> block after the fetch:
  \<^verbatim>\<open>if (!response.ok) throw new Error(msg); const data = await response.json();\<close>
\<close>

fun try_fetch :: "string \<Rightarrow> 'a fetch_result \<Rightarrow> thrown + 'a" where
  "try_fetch msg (Rejected err) = Inl err"
| "try_fetch msg (Response ok js) = (if \<not> ok then Inl (Error msg) else js)"

text \<open>\<^verbatim>\<open>err instanceof Error ? err.message : fallback\<close>\<close>

fun catch_message :: "thrown \<Rightarrow> string \<Rightarrow> string" where
  "catch_message (Error msg) fallback = msg"
| "catch_message NonError fallback = fallback"

section \<open>Start-up and persistence of the credentials\<close>

text \<open>\<^verbatim>\<open>localStorage.getItem(key) || ""\<close>\<close>

definition getItem_or_empty :: "(string \<rightharpoonup> string) \<Rightarrow> string \<Rightarrow> string" where
  "getItem_or_empty storage key = (case storage key of None \<Rightarrow> [] | Some v \<Rightarrow> v)"

text \<open>\<^verbatim>\<open>if (value) localStorage.setItem(key, value)\<close>\<close>

definition persist :: "string \<Rightarrow> string \<Rightarrow> (string \<rightharpoonup> string) \<Rightarrow> (string \<rightharpoonup> string)" where
  "persist key v storage = (if v \<noteq> [] then storage(key \<mapsto> v) else storage)"

text \<open>
  The first render: the three lazy initialisers read the storage, the other cells take
  their literal initial values, and the three effects run once on mount.
\<close>

definition initial :: "(string \<rightharpoonup> string) \<Rightarrow> app_state" where
  "initial storage =
     (let r = getItem_or_empty storage ''github_repo'';
          g = getItem_or_empty storage ''github_token'';
          d = getItem_or_empty storage ''devin_api_key''
      in \<lparr>repo = r, githubToken = g, devinApiKey = d, issues = [], loading = False,
          error = [], sessions = [], configured = False,
          localStorage =
            persist ''devin_api_key'' d
              (persist ''github_token'' g (persist ''github_repo'' r storage))\<rparr>)"

text \<open>
  The \<^verbatim>\<open>onChange\<close> handlers of the three inputs. Setting a cell to the value it holds
  does not re-render; otherwise the effect that depends on the cell runs.
\<close>

definition setRepo :: "string \<Rightarrow> app_state \<Rightarrow> app_state" where
  "setRepo v st =
     (if v = repo st then st
      else st\<lparr>repo := v, localStorage := persist ''github_repo'' v (localStorage st)\<rparr>)"

definition setGithubToken :: "string \<Rightarrow> app_state \<Rightarrow> app_state" where
  "setGithubToken v st =
     (if v = githubToken st then st
      else st\<lparr>githubToken := v,
              localStorage := persist ''github_token'' v (localStorage st)\<rparr>)"

definition setDevinApiKey :: "string \<Rightarrow> app_state \<Rightarrow> app_state" where
  "setDevinApiKey v st =
     (if v = devinApiKey st then st
      else st\<lparr>devinApiKey := v,
              localStorage := persist ''devin_api_key'' v (localStorage st)\<rparr>)"

section \<open>The handlers\<close>

text \<open>
  Each asynchronous handler is split where it awaits the fetch: \<open>f_call\<close> is the
  synchronous part up to the fetch, giving the new state and the request sent (if any);
  \<open>f_resume\<close> is the continuation, applied to the outcome of the fetch and to the state
  at that later moment (the \<^verbatim>\<open>setSessions\<close> updater receives the then current map).
\<close>

subsection \<open>\<^verbatim>\<open>loadIssues\<close>\<close>

definition loadIssues_call :: "app_state \<Rightarrow> app_state \<times> request option" where
  "loadIssues_call st =
     (if repo st = [] \<or> githubToken st = []
      then (st\<lparr>error := ''Please enter repository and GitHub token''\<rparr>, None)
      else (st\<lparr>loading := True, error := []\<rparr>,
            Some (Get ''/api/issues''
                    [(''repo'', repo st), (''github_token'', githubToken st)])))"

definition loadIssues_resume :: "issue list fetch_result \<Rightarrow> app_state \<Rightarrow> app_state" where
  "loadIssues_resume res st =
     (case try_fetch ''Failed to fetch issues'' res of
        Inr data \<Rightarrow> st\<lparr>issues := data, configured := True, loading := False\<rparr>
      | Inl err \<Rightarrow> st\<lparr>error := catch_message err ''Failed to load issues'', loading := False\<rparr>)"

subsection \<open>\<^verbatim>\<open>scopeIssue\<close>\<close>

definition scopeIssue_call :: "nat \<Rightarrow> app_state \<Rightarrow> app_state \<times> request option" where
  "scopeIssue_call issueNumber st =
     (if devinApiKey st = []
      then (st\<lparr>error := ''Please enter Devin API key''\<rparr>, None)
      else (st\<lparr>loading := True, error := []\<rparr>,
            Some (Post ''/api/scope''
                    [(''repo'', JString (repo st)),
                     (''issue_number'', JNumber issueNumber),
                     (''github_token'', JString (githubToken st)),
                     (''devin_api_key'', JString (devinApiKey st))])))"

definition scopeIssue_resume :: "nat \<Rightarrow> session fetch_result \<Rightarrow> app_state \<Rightarrow> app_state" where
  "scopeIssue_resume issueNumber res st =
     (case try_fetch ''Failed to scope issue'' res of
        Inr data \<Rightarrow> st\<lparr>sessions := spread_set (sessions st) issueNumber data, loading := False\<rparr>
      | Inl err \<Rightarrow> st\<lparr>error := catch_message err ''Failed to scope issue'', loading := False\<rparr>)"

subsection \<open>\<^verbatim>\<open>completeIssue\<close>\<close>

text \<open>\<^verbatim>\<open>sessions[issueNumber]?.session_id || ""\<close>\<close>

definition sessionId_of :: "app_state \<Rightarrow> nat \<Rightarrow> string" where
  "sessionId_of st issueNumber =
     (case map_of (sessions st) issueNumber of None \<Rightarrow> [] | Some s \<Rightarrow> session_id s)"

definition completeIssue_call :: "nat \<Rightarrow> app_state \<Rightarrow> app_state \<times> request option" where
  "completeIssue_call issueNumber st =
     (if devinApiKey st = []
      then (st\<lparr>error := ''Please enter Devin API key''\<rparr>, None)
      else (st\<lparr>loading := True, error := []\<rparr>,
            Some (Post ''/api/complete''
                    [(''repo'', JString (repo st)),
                     (''issue_number'', JNumber issueNumber),
                     (''github_token'', JString (githubToken st)),
                     (''devin_api_key'', JString (devinApiKey st)),
                     (''session_id'', JString (sessionId_of st issueNumber))])))"

definition completeIssue_resume :: "nat \<Rightarrow> session fetch_result \<Rightarrow> app_state \<Rightarrow> app_state" where
  "completeIssue_resume issueNumber res st =
     (case try_fetch ''Failed to complete issue'' res of
        Inr data \<Rightarrow> st\<lparr>sessions := spread_set (sessions st) issueNumber data, loading := False\<rparr>
      | Inl err \<Rightarrow> st\<lparr>error := catch_message err ''Failed to complete issue'', loading := False\<rparr>)"

subsection \<open>\<^verbatim>\<open>checkSessionStatus\<close> and the polling effect\<close>

definition checkSessionStatus_call :: "nat \<Rightarrow> string \<Rightarrow> app_state \<Rightarrow> request option" where
  "checkSessionStatus_call issueNumber sessionId st =
     (if devinApiKey st = [] then None
      else Some (Get (''/api/session/'' @ sessionId) [(''devin_api_key'', devinApiKey st)]))"

text \<open>The \<^verbatim>\<open>catch\<close> clause only writes to the console: the state is not touched.\<close>

definition checkSessionStatus_resume :: "nat \<Rightarrow> session fetch_result \<Rightarrow> app_state \<Rightarrow> app_state" where
  "checkSessionStatus_resume issueNumber res st =
     (case try_fetch ''Failed to check session status'' res of
        Inr data \<Rightarrow> st\<lparr>sessions := spread_set (sessions st) issueNumber data\<rparr>
      | Inl err \<Rightarrow> st)"

text \<open>
  The callback given to \<^verbatim>\<open>setInterval\<close>: the refresh requests of one tick, each with the
  issue number its answer will be stored under.
\<close>

definition interval_callback :: "app_state \<Rightarrow> (nat \<times> request) list" where
  "interval_callback st =
     concat (map (\<lambda>(issueNumber, s).
                if status s = ''scoping'' \<or> status s = ''implementing''
                then (case checkSessionStatus_call issueNumber (session_id s) st of
                        None \<Rightarrow> [] | Some r \<Rightarrow> [(issueNumber, r)])
                else [])
             (Object_entries (sessions st)))"

text \<open>
  The polling effect, re-run whenever \<^verbatim>\<open>sessions\<close> or \<^verbatim>\<open>devinApiKey\<close> change: \<open>None\<close>
  when it installs no timer, otherwise what a tick of the installed timer sends.
\<close>

definition polling_effect :: "app_state \<Rightarrow> (nat \<times> request) list option" where
  "polling_effect st = (if devinApiKey st = [] then None else Some (interval_callback st))"

definition tick_requests :: "app_state \<Rightarrow> (nat \<times> request) list" where
  "tick_requests st = (case polling_effect st of None \<Rightarrow> [] | Some reqs \<Rightarrow> reqs)"

subsection \<open>The buttons of an issue card\<close>

text \<open>\<^verbatim>\<open>disabled={loading || !!session}\<close> with \<^verbatim>\<open>session = sessions[issue.number]\<close>\<close>

definition scope_disabled :: "app_state \<Rightarrow> nat \<Rightarrow> bool" where
  "scope_disabled st issueNumber = (loading st \<or> map_of (sessions st) issueNumber \<noteq> None)"

text \<open>\<^verbatim>\<open>disabled={loading || session?.status === "implementing"}\<close>\<close>

definition complete_disabled :: "app_state \<Rightarrow> nat \<Rightarrow> bool" where
  "complete_disabled st issueNumber =
     (loading st \<or>
      (case map_of (sessions st) issueNumber of
         None \<Rightarrow> False | Some s \<Rightarrow> status s = ''implementing''))"

text \<open>A disabled button does not run its \<^verbatim>\<open>onClick\<close>.\<close>

definition click_scope :: "nat \<Rightarrow> app_state \<Rightarrow> app_state \<times> request option" where
  "click_scope issueNumber st =
     (if scope_disabled st issueNumber then (st, None) else scopeIssue_call issueNumber st)"

definition click_complete :: "nat \<Rightarrow> app_state \<Rightarrow> app_state \<times> request option" where
  "click_complete issueNumber st =
     (if complete_disabled st issueNumber then (st, None) else completeIssue_call issueNumber st)"

text \<open>\<^verbatim>\<open>{error && <Alert ...>}\<close>\<close>

definition banner_shown :: "app_state \<Rightarrow> bool" where
  "banner_shown st = (error st \<noteq> [])"

text \<open>\<^verbatim>\<open>disabled={loading || !repo || !githubToken || !devinApiKey}\<close> on the connect button\<close>

definition connect_disabled :: "app_state \<Rightarrow> bool" where
  "connect_disabled st =
     (loading st \<or> repo st = [] \<or> githubToken st = [] \<or> devinApiKey st = [])"

definition click_connect :: "app_state \<Rightarrow> app_state \<times> request option" where
  "click_connect st = (if connect_disabled st then (st, None) else loadIssues_call st)"

text \<open>The value a request body gives to a field, \<open>None\<close> when the field is absent.\<close>

fun body_field :: "request option \<Rightarrow> string \<Rightarrow> json option" where
  "body_field (Some (Post path flds)) k = map_of flds k"
| "body_field (Some (Get path params)) k = None"
| "body_field None k = None"

section \<open>The component as a transition system\<close>

text \<open>
  What can happen to the component: the user edits a credential, presses a button, a
  pending fetch settles, or the user goes back to the configuration form. A fetch may
  settle with any outcome and at any moment.
\<close>

datatype event =
  ChangeRepo string
| ChangeGithubToken string
| ChangeDevinApiKey string
| ClickConnect
| LoadIssuesSettled "issue list fetch_result"
| ClickScope nat
| ScopeSettled nat "session fetch_result"
| ClickComplete nat
| CompleteSettled nat "session fetch_result"
| StatusSettled nat "session fetch_result"
| ChangeConfiguration

fun step :: "event \<Rightarrow> app_state \<Rightarrow> app_state" where
  "step (ChangeRepo v) st = setRepo v st"
| "step (ChangeGithubToken v) st = setGithubToken v st"
| "step (ChangeDevinApiKey v) st = setDevinApiKey v st"
| "step ClickConnect st = fst (click_connect st)"
| "step (LoadIssuesSettled res) st = loadIssues_resume res st"
| "step (ClickScope issueNumber) st = fst (click_scope issueNumber st)"
| "step (ScopeSettled issueNumber res) st = scopeIssue_resume issueNumber res st"
| "step (ClickComplete issueNumber) st = fst (click_complete issueNumber st)"
| "step (CompleteSettled issueNumber res) st = completeIssue_resume issueNumber res st"
| "step (StatusSettled issueNumber res) st = checkSessionStatus_resume issueNumber res st"
| "step ChangeConfiguration st = st\<lparr>configured := False\<rparr>"

inductive reachable :: "app_state \<Rightarrow> bool" where
  start: "reachable (initial storage)"
| moved: "reachable st \<Longrightarrow> reachable (step ev st)"

section \<open>The earlier copy of the component (github-issues-integration/frontend/src/App.tsx)\<close>

text \<open>
  The copy under \<^verbatim>\<open>github-issues-integration/\<close> has the same handlers and buttons,
  statement for statement, except that its three credentials start empty and are not
  persisted, and that neither its \<^verbatim>\<open>checkSessionStatus\<close> nor its polling effect looks
  at \<^verbatim>\<open>devinApiKey\<close> before sending.
\<close>

definition legacy_checkSessionStatus_call :: "nat \<Rightarrow> string \<Rightarrow> app_state \<Rightarrow> request" where
  "legacy_checkSessionStatus_call issueNumber sessionId st =
     Get (''/api/session/'' @ sessionId) [(''devin_api_key'', devinApiKey st)]"

definition legacy_interval_callback :: "app_state \<Rightarrow> (nat \<times> request) list" where
  "legacy_interval_callback st =
     concat (map (\<lambda>(issueNumber, s).
                if status s = ''scoping'' \<or> status s = ''implementing''
                then [(issueNumber, legacy_checkSessionStatus_call issueNumber (session_id s) st)]
                else [])
             (Object_entries (sessions st)))"

definition legacy_polling_effect :: "app_state \<Rightarrow> (nat \<times> request) list option" where
  "legacy_polling_effect st = Some (legacy_interval_callback st)"

section \<open>Example states\<close>

text \<open>
  The scenario of the specification: the user connects to \<^verbatim>\<open>octo/demo\<close>, which has two
  open issues, and scopes issue 1; later the agent finishes.
\<close>

definition demo_issue :: "nat \<Rightarrow> string \<Rightarrow> issue" where
  "demo_issue n t =
     \<lparr>number = n, title = t, body = [], state = ''open'', html_url = [],
      created_at = [], updated_at = [], labels = []\<rparr>"

definition scoping_session :: session where
  "scoping_session =
     \<lparr>session_id = ''s1'', status = ''scoping'', message = Some ''Scoping issue #1'',
      session_url = None, session_repo = Some ''octo/demo'', issue_number = Some 1,
      confidence_score = None, action_plan = None\<rparr>"

definition finished_session :: session where
  "finished_session =
     \<lparr>session_id = ''s1'', status = ''finished'', message = None,
      session_url = None, session_repo = None, issue_number = None,
      confidence_score = Some 82, action_plan = Some ''1. ...''\<rparr>"

definition connected_state :: app_state where
  "connected_state =
     step (LoadIssuesSettled (Response True (Inr [demo_issue 1 ''Bug'', demo_issue 2 ''Feature''])))
       (step ClickConnect
         (step (ChangeDevinApiKey ''key'')
           (step (ChangeGithubToken ''ghp'')
             (step (ChangeRepo ''octo/demo'') (initial Map.empty)))))"

definition scoped_state :: app_state where
  "scoped_state =
     step (ScopeSettled 1 (Response True (Inr scoping_session)))
       (step (ClickScope 1) connected_state)"

text \<open>
  The same, after the user has gone back to the configuration form and emptied the
  Devin API key field.
\<close>

definition unkeyed_state :: app_state where
  "unkeyed_state = step (ChangeDevinApiKey []) (step ChangeConfiguration scoped_state)"

text \<open>
  The dashboard without a key: back on the configuration form the user presses the
  connect button, empties the Devin API key field while the issues are being fetched,
  and the fetch then succeeds.
\<close>

definition dashboard_unkeyed_state :: app_state where
  "dashboard_unkeyed_state =
     step (LoadIssuesSettled (Response True (Inr [demo_issue 1 ''Bug'', demo_issue 2 ''Feature''])))
       (step (ChangeDevinApiKey [])
         (step ClickConnect (step ChangeConfiguration scoped_state)))"

section \<open>Facts about the model\<close>

subsection \<open>The sessions object\<close>

lemma spread_set_map_of: "map_of (spread_set prev k v) = (map_of prev)(k \<mapsto> v)"
  by (simp add: spread_set_def update_conv')

lemma spread_set_distinct:
  "distinct (map fst prev) \<Longrightarrow> distinct (map fst (spread_set prev k v))"
  by (simp add: spread_set_def distinct_update)

lemma step_sessions_distinct:
  "distinct (map fst (sessions st)) \<Longrightarrow> distinct (map fst (sessions (step ev st)))"
  by (cases ev)
     (auto simp: setRepo_def setGithubToken_def setDevinApiKey_def click_connect_def
        loadIssues_call_def loadIssues_resume_def click_scope_def scopeIssue_call_def
        scopeIssue_resume_def click_complete_def completeIssue_call_def
        completeIssue_resume_def checkSessionStatus_resume_def spread_set_distinct
        split: sum.splits)

lemma reachable_distinct: "reachable st \<Longrightarrow> distinct (map fst (sessions st))"
  by (induction rule: reachable.induct)
     (simp_all add: initial_def Let_def step_sessions_distinct)

subsection \<open>The storage\<close>



subsection \<open>What a tick sends\<close>

lemma interval_callback_eq:
  "interval_callback st =
     concat (map (\<lambda>e. if devinApiKey st \<noteq> [] \<and>
                          (status (snd e) = ''scoping'' \<or> status (snd e) = ''implementing'')
                       then [(fst e, Get (''/api/session/'' @ session_id (snd e))
                                        [(''devin_api_key'', devinApiKey st)])]
                       else [])
            (Object_entries (sessions st)))"
  unfolding interval_callback_def checkSessionStatus_call_def split_def
  by (rule arg_cong [where f = concat], rule map_cong [OF refl]) simp

lemma interval_callback_iff:
  "(k, r) \<in> set (interval_callback st) \<longleftrightarrow>
     devinApiKey st \<noteq> [] \<and>
     (\<exists>s. (k, s) \<in> set (sessions st) \<and>
          (status s = ''scoping'' \<or> status s = ''implementing'') \<and>
          r = Get (''/api/session/'' @ session_id s) [(''devin_api_key'', devinApiKey st)])"
  unfolding interval_callback_eq Object_entries_def by force

lemma tick_requests_iff:
  "(k, r) \<in> set (tick_requests st) \<longleftrightarrow>
     devinApiKey st \<noteq> [] \<and>
     (\<exists>s. (k, s) \<in> set (sessions st) \<and>
          (status s = ''scoping'' \<or> status s = ''implementing'') \<and>
          r = Get (''/api/session/'' @ session_id s) [(''devin_api_key'', devinApiKey st)])"
proof (cases "devinApiKey st = []")
  case True
  then show ?thesis by (simp add: tick_requests_def polling_effect_def)
next
  case False
  then have "tick_requests st = interval_callback st"
    by (simp add: tick_requests_def polling_effect_def)
  then show ?thesis by (simp only: interval_callback_iff)
qed

lemma tick_requests_inactive:
  assumes "distinct (map fst (sessions st))" and "map_of (sessions st) k = Some s"
    and "status s \<noteq> ''scoping''" and "status s \<noteq> ''implementing''"
  shows "(k, r) \<notin> set (tick_requests st)"
proof
  assume "(k, r) \<in> set (tick_requests st)"
  then obtain s' where s': "(k, s') \<in> set (sessions st)"
    and act: "status s' = ''scoping'' \<or> status s' = ''implementing''"
    unfolding tick_requests_iff by blast
  from assms(1) s' have "map_of (sessions st) k = Some s'" by simp
  with assms(2) have "s' = s" by simp
  with act assms(3,4) show False by simp
qed

subsection \<open>The example states\<close>

lemma connected_state_eq:
  "connected_state =
     \<lparr>repo = ''octo/demo'', githubToken = ''ghp'', devinApiKey = ''key'',
      issues = [demo_issue 1 ''Bug'', demo_issue 2 ''Feature''], loading = False,
      error = [], sessions = [], configured = True,
      localStorage = [''github_repo'' \<mapsto> ''octo/demo'', ''github_token'' \<mapsto> ''ghp'',
                      ''devin_api_key'' \<mapsto> ''key'']\<rparr>"
  by (simp add: connected_state_def initial_def getItem_or_empty_def persist_def
        setRepo_def setGithubToken_def setDevinApiKey_def click_connect_def
        connect_disabled_def loadIssues_call_def loadIssues_resume_def)

lemma scoped_state_eq:
  "scoped_state =
     \<lparr>repo = ''octo/demo'', githubToken = ''ghp'', devinApiKey = ''key'',
      issues = [demo_issue 1 ''Bug'', demo_issue 2 ''Feature''], loading = False,
      error = [], sessions = [(1, scoping_session)], configured = True,
      localStorage = [''github_repo'' \<mapsto> ''octo/demo'', ''github_token'' \<mapsto> ''ghp'',
                      ''devin_api_key'' \<mapsto> ''key'']\<rparr>"
  by (simp add: scoped_state_def connected_state_eq click_scope_def scope_disabled_def
        scopeIssue_call_def scopeIssue_resume_def spread_set_def)

lemma unkeyed_state_eq:
  "unkeyed_state =
     \<lparr>repo = ''octo/demo'', githubToken = ''ghp'', devinApiKey = [],
      issues = [demo_issue 1 ''Bug'', demo_issue 2 ''Feature''], loading = False,
      error = [], sessions = [(1, scoping_session)], configured = False,
      localStorage = [''github_repo'' \<mapsto> ''octo/demo'', ''github_token'' \<mapsto> ''ghp'',
                      ''devin_api_key'' \<mapsto> ''key'']\<rparr>"
  by (simp add: unkeyed_state_def scoped_state_eq setDevinApiKey_def persist_def)

lemma reachable_connected_state: "reachable connected_state"
  unfolding connected_state_def by (intro reachable.intros)

lemma reachable_scoped_state: "reachable scoped_state"
  unfolding scoped_state_def by (intro reachable.intros reachable_connected_state)

lemma reachable_unkeyed_state: "reachable unkeyed_state"
  unfolding unkeyed_state_def by (intro reachable.intros reachable_scoped_state)

lemma dashboard_unkeyed_state_eq:
  "dashboard_unkeyed_state =
     \<lparr>repo = ''octo/demo'', githubToken = ''ghp'', devinApiKey = [],
      issues = [demo_issue 1 ''Bug'', demo_issue 2 ''Feature''], loading = False,
      error = [], sessions = [(1, scoping_session)], configured = True,
      localStorage = [''github_repo'' \<mapsto> ''octo/demo'', ''github_token'' \<mapsto> ''ghp'',
                      ''devin_api_key'' \<mapsto> ''key'']\<rparr>"
  by (simp add: dashboard_unkeyed_state_def scoped_state_eq click_connect_def
        connect_disabled_def loadIssues_call_def loadIssues_resume_def setDevinApiKey_def
        persist_def)

lemma reachable_dashboard_unkeyed_state: "reachable dashboard_unkeyed_state"
  unfolding dashboard_unkeyed_state_def by (intro reachable.intros reachable_scoped_state)

lemma tick_requests_scoped_state:
  "tick_requests scoped_state = [(1, Get ''/api/session/s1'' [(''devin_api_key'', ''key'')])]"
  by (simp add: tick_requests_def polling_effect_def interval_callback_eq Object_entries_def
        scoped_state_eq scoping_session_def)

section \<open>The claims\<close>

text \<open>
  C1, as the specification states it: completing an issue that has no tracked session
  sends a body without a \<^verbatim>\<open>session_id\<close> field. The component does otherwise: connected,
  with no session tracked for issue 1, its body has the field.
\<close>

theorem complete_untracked_sends_session_id_field:
  "map_of (sessions connected_state) 1 = None \<and>
   body_field (snd (completeIssue_call 1 connected_state)) ''session_id'' \<noteq> None"
  by (simp add: connected_state_eq completeIssue_call_def sessionId_of_def)

text \<open>
  C1, amended: \<^verbatim>\<open>completeIssue\<close> sends nothing without a Devin API key; with one it
  posts to \<^verbatim>\<open>/api/complete\<close> a body whose \<^verbatim>\<open>session_id\<close> is the empty string when no
  session is tracked for the issue, and the tracked session's id otherwise.
\<close>

theorem completeIssue_session_id:
  "(devinApiKey st = [] \<longrightarrow> snd (completeIssue_call k st) = None) \<and>
   (devinApiKey st \<noteq> [] \<longrightarrow>
      (\<exists>flds. snd (completeIssue_call k st) = Some (Post ''/api/complete'' flds)) \<and>
      (map_of (sessions st) k = None \<longrightarrow>
         body_field (snd (completeIssue_call k st)) ''session_id'' = Some (JString [])) \<and>
      (\<forall>s. map_of (sessions st) k = Some s \<longrightarrow>
         body_field (snd (completeIssue_call k st)) ''session_id''
           = Some (JString (session_id s))))"
  by (simp add: completeIssue_call_def sessionId_of_def)

theorem completeIssue_session_id_witness:
  "devinApiKey scoped_state \<noteq> [] \<and>
   map_of (sessions scoped_state) 1 = Some scoping_session \<and>
   map_of (sessions scoped_state) 2 = None \<and>
   body_field (snd (completeIssue_call 1 scoped_state)) ''session_id'' = Some (JString ''s1'') \<and>
   body_field (snd (completeIssue_call 2 scoped_state)) ''session_id'' = Some (JString []) \<and>
   devinApiKey unkeyed_state = [] \<and> snd (completeIssue_call 1 unkeyed_state) = None"
  using completeIssue_session_id [of scoped_state 1]
    completeIssue_session_id [of scoped_state 2]
    completeIssue_session_id [of unkeyed_state 1]
  by (simp add: scoped_state_eq unkeyed_state_eq scoping_session_def)

text \<open>
  C2: on a tick of the polling timer, a refresh request goes out for a tracked session
  exactly when its status is \<^verbatim>\<open>scoping\<close> or \<^verbatim>\<open>implementing\<close>, and it asks for that session's
  id. So once a refresh has stored for an issue a record with any other status, the next
  tick sends nothing for that issue, and no tick does while such a record is the one
  tracked for it.
\<close>

theorem poll_tick_refreshes_active_sessions:
  "(polling_effect st = Some reqs \<longrightarrow>
      ((k, r) \<in> set reqs \<longleftrightarrow>
         (\<exists>s. (k, s) \<in> set (sessions st) \<and>
              (status s = ''scoping'' \<or> status s = ''implementing'') \<and>
              r = Get (''/api/session/'' @ session_id s)
                    [(''devin_api_key'', devinApiKey st)]))) \<and>
   (reachable st \<and> status data \<noteq> ''scoping'' \<and> status data \<noteq> ''implementing'' \<longrightarrow>
      (k, r) \<notin> set (tick_requests
                      (checkSessionStatus_resume k (Response True (Inr data)) st))) \<and>
   (reachable st \<and> map_of (sessions st) k = Some data \<and>
    status data \<noteq> ''scoping'' \<and> status data \<noteq> ''implementing'' \<longrightarrow>
      (k, r) \<notin> set (tick_requests st))"
proof (intro conjI impI)
  assume "polling_effect st = Some reqs"
  then have "devinApiKey st \<noteq> []" and "reqs = interval_callback st"
    by (auto simp: polling_effect_def split: if_splits)
  then show "(k, r) \<in> set reqs \<longleftrightarrow>
         (\<exists>s. (k, s) \<in> set (sessions st) \<and>
              (status s = ''scoping'' \<or> status s = ''implementing'') \<and>
              r = Get (''/api/session/'' @ session_id s)
                    [(''devin_api_key'', devinApiKey st)])"
    by (simp only: interval_callback_iff) simp
next
  let ?st' = "checkSessionStatus_resume k (Response True (Inr data)) st"
  assume a: "reachable st \<and> status data \<noteq> ''scoping'' \<and> status data \<noteq> ''implementing''"
  then have "distinct (map fst (sessions st))" by (simp add: reachable_distinct)
  then have "distinct (map fst (sessions ?st'))"
    by (simp add: checkSessionStatus_resume_def spread_set_distinct)
  moreover have "map_of (sessions ?st') k = Some data"
    by (simp add: checkSessionStatus_resume_def spread_set_map_of)
  ultimately show "(k, r) \<notin> set (tick_requests ?st')"
    using a by (intro tick_requests_inactive [where s = data]) simp_all
next
  assume a: "reachable st \<and> map_of (sessions st) k = Some data \<and>
    status data \<noteq> ''scoping'' \<and> status data \<noteq> ''implementing''"
  then have "distinct (map fst (sessions st))" by (simp add: reachable_distinct)
  then show "(k, r) \<notin> set (tick_requests st)"
    using a by (intro tick_requests_inactive [where s = data]) simp_all
qed

theorem poll_tick_refreshes_active_sessions_witness:
  "polling_effect scoped_state
     = Some [(1, Get ''/api/session/s1'' [(''devin_api_key'', ''key'')])] \<and>
   (1, scoping_session) \<in> set (sessions scoped_state) \<and>
   status scoping_session = ''scoping'' \<and>
   reachable scoped_state \<and>
   status finished_session \<noteq> ''scoping'' \<and> status finished_session \<noteq> ''implementing'' \<and>
   (1, Get ''/api/session/s1'' [(''devin_api_key'', ''key'')])
     \<notin> set (tick_requests
              (checkSessionStatus_resume 1 (Response True (Inr finished_session))
                 scoped_state)) \<and>
   reachable (step ChangeConfiguration
                (step (StatusSettled 1 (Response True (Inr finished_session))) scoped_state)) \<and>
   map_of (sessions (step ChangeConfiguration
                (step (StatusSettled 1 (Response True (Inr finished_session))) scoped_state))) 1
     = Some finished_session \<and>
   (1, Get ''/api/session/s1'' [(''devin_api_key'', ''key'')])
     \<notin> set (tick_requests (step ChangeConfiguration
                (step (StatusSettled 1 (Response True (Inr finished_session))) scoped_state)))"
proof -
  let ?r = "Get ''/api/session/s1'' [(''devin_api_key'', ''key'')]"
  let ?later = "step ChangeConfiguration
                  (step (StatusSettled 1 (Response True (Inr finished_session))) scoped_state)"
  have p: "polling_effect scoped_state = Some [(1, ?r)]"
    using tick_requests_scoped_state
    by (simp add: tick_requests_def polling_effect_def scoped_state_eq)
  have f: "status finished_session \<noteq> ''scoping'' \<and> status finished_session \<noteq> ''implementing''"
    by (simp add: finished_session_def)
  have l: "reachable ?later"
    by (intro reachable.intros reachable_scoped_state)
  have m: "map_of (sessions ?later) 1 = Some finished_session"
    by (simp add: checkSessionStatus_resume_def spread_set_map_of)
  from poll_tick_refreshes_active_sessions
         [of scoped_state "[(1, ?r)]" 1 ?r finished_session]
       poll_tick_refreshes_active_sessions
         [of ?later "[]" 1 ?r finished_session]
  show ?thesis
    using p f l m reachable_scoped_state
    by (simp add: scoped_state_eq scoping_session_def)
qed

text \<open>
  Without a Devin API key the effect of the component under \<^verbatim>\<open>frontend/\<close> installs no
  timer, so nothing is sent; it installs one as soon as there is a key.
\<close>

lemma polling_needs_credential:
  "(devinApiKey st = [] \<longrightarrow> polling_effect st = None \<and> tick_requests st = []) \<and>
   (devinApiKey st \<noteq> [] \<longrightarrow> polling_effect st = Some (interval_callback st))"
  by (simp add: polling_effect_def tick_requests_def)

text \<open>
  C3: without a Devin API key a tick sends no refresh request, however many sessions are
  tracked as \<^verbatim>\<open>scoping\<close> or \<^verbatim>\<open>implementing\<close>, and polling resumes once a key is typed. The
  component under \<^verbatim>\<open>frontend/\<close> does so (\<open>polling_needs_credential\<close>). The copy under
  \<^verbatim>\<open>github-issues-integration/frontend/\<close> does not: with the key field emptied and issue 1
  tracked as \<^verbatim>\<open>scoping\<close>, its timer is installed and a tick asks for the session with
  an empty \<^verbatim>\<open>devin_api_key\<close>.
\<close>

theorem legacy_poll_without_credential:
  "devinApiKey unkeyed_state = [] \<and>
   legacy_polling_effect unkeyed_state
     = Some [(1, Get ''/api/session/s1'' [(''devin_api_key'', [])])]"
  by (simp add: legacy_polling_effect_def legacy_interval_callback_def
        legacy_checkSessionStatus_call_def Object_entries_def unkeyed_state_eq
        scoping_session_def)

text \<open>
  C4: when a status refresh fails (the fetch rejects, the response is not OK, or its
  body does not parse), the sessions map is what it was before; indeed the whole state
  is.
\<close>

theorem refresh_failure_keeps_sessions:
  "sessions (checkSessionStatus_resume k (Rejected err) st) = sessions st \<and>
   sessions (checkSessionStatus_resume k (Response False js) st) = sessions st \<and>
   sessions (checkSessionStatus_resume k (Response True (Inl err)) st) = sessions st \<and>
   checkSessionStatus_resume k (Rejected err) st = st \<and>
   checkSessionStatus_resume k (Response False js) st = st \<and>
   checkSessionStatus_resume k (Response True (Inl err)) st = st"
  by (simp add: checkSessionStatus_resume_def)

text \<open>The outcomes of a fetch that take a handler to its \<^verbatim>\<open>catch\<close> clause.\<close>

lemma try_fetch_fails_iff:
  "try_fetch msg res = Inl err \<longleftrightarrow>
     res = Rejected err \<or> (\<exists>js. res = Response False js \<and> err = Error msg) \<or>
     res = Response True (Inl err)"
  by (cases res) auto

text \<open>
  C5, as the specification states it: every failed fetch sets the error banner. A failed
  status refresh does not: with no banner shown and issue 1 tracked, a refresh whose
  fetch rejects leaves the component without a banner.
\<close>

theorem refresh_failure_sets_no_banner:
  "\<not> banner_shown scoped_state \<and>
   \<not> banner_shown
       (checkSessionStatus_resume 1 (Rejected (Error ''Failed to fetch'')) scoped_state)"
  by (simp add: banner_shown_def checkSessionStatus_resume_def scoped_state_eq)

text \<open>
  C5, amended: a failed fetch in \<^verbatim>\<open>loadIssues\<close>, \<^verbatim>\<open>scopeIssue\<close> or \<^verbatim>\<open>completeIssue\<close> is
  caught and sets the error text to the message of the thrown \<^verbatim>\<open>Error\<close> (to the handler's
  fixed text when the thrown value is no \<^verbatim>\<open>Error\<close>), so a banner is shown unless that
  message is empty; a failed status refresh is caught and changes nothing. No failure
  changes the issue list or the sessions map.
\<close>

theorem fetch_failures_keep_state:
  "(try_fetch ''Failed to fetch issues'' ires = Inl err \<longrightarrow>
      error (loadIssues_resume ires st) = catch_message err ''Failed to load issues'' \<and>
      (err \<noteq> Error [] \<longrightarrow> banner_shown (loadIssues_resume ires st)) \<and>
      issues (loadIssues_resume ires st) = issues st \<and>
      sessions (loadIssues_resume ires st) = sessions st) \<and>
   (try_fetch ''Failed to scope issue'' res = Inl err \<longrightarrow>
      error (scopeIssue_resume k res st) = catch_message err ''Failed to scope issue'' \<and>
      (err \<noteq> Error [] \<longrightarrow> banner_shown (scopeIssue_resume k res st)) \<and>
      issues (scopeIssue_resume k res st) = issues st \<and>
      sessions (scopeIssue_resume k res st) = sessions st) \<and>
   (try_fetch ''Failed to complete issue'' res = Inl err \<longrightarrow>
      error (completeIssue_resume k res st) = catch_message err ''Failed to complete issue'' \<and>
      (err \<noteq> Error [] \<longrightarrow> banner_shown (completeIssue_resume k res st)) \<and>
      issues (completeIssue_resume k res st) = issues st \<and>
      sessions (completeIssue_resume k res st) = sessions st) \<and>
   (try_fetch ''Failed to check session status'' res = Inl err \<longrightarrow>
      checkSessionStatus_resume k res st = st)"
  by (cases err)
     (auto simp: loadIssues_resume_def scopeIssue_resume_def completeIssue_resume_def
        checkSessionStatus_resume_def banner_shown_def)

theorem fetch_failures_keep_state_witness:
  "try_fetch ''Failed to fetch issues'' (Rejected (Error ''Failed to fetch'') :: issue list fetch_result)
     = Inl (Error ''Failed to fetch'') \<and>
   try_fetch ''Failed to scope issue'' (Rejected (Error ''Failed to fetch'') :: session fetch_result)
     = Inl (Error ''Failed to fetch'') \<and>
   try_fetch ''Failed to complete issue'' (Rejected (Error ''Failed to fetch'') :: session fetch_result)
     = Inl (Error ''Failed to fetch'') \<and>
   try_fetch ''Failed to check session status'' (Rejected (Error ''Failed to fetch'') :: session fetch_result)
     = Inl (Error ''Failed to fetch'') \<and>
   error (loadIssues_resume (Rejected (Error ''Failed to fetch'')) scoped_state)
     = ''Failed to fetch'' \<and>
   banner_shown (scopeIssue_resume 1 (Rejected (Error ''Failed to fetch'')) scoped_state) \<and>
   sessions (completeIssue_resume 1 (Rejected (Error ''Failed to fetch'')) scoped_state)
     = sessions scoped_state \<and>
   checkSessionStatus_resume 1 (Rejected (Error ''Failed to fetch'')) scoped_state
     = scoped_state"
  using fetch_failures_keep_state
          [of "Rejected (Error ''Failed to fetch'')" "Error ''Failed to fetch''" scoped_state
              "Rejected (Error ''Failed to fetch'')" 1]
  by simp

text \<open>
  C6: in every state the component can reach, the sessions map has at most one record
  for an issue number; and an answer to scope, complete or refresh that carries a record
  stores it under the issue number the call was made for, and leaves the record of every
  other issue number as it was, keeping the keys unique.
\<close>

theorem sessions_one_record_per_issue:
  "(reachable st \<longrightarrow> distinct (map fst (sessions st))) \<and>
   map_of (sessions (scopeIssue_resume k (Response True (Inr data)) st))
     = (map_of (sessions st))(k \<mapsto> data) \<and>
   map_of (sessions (completeIssue_resume k (Response True (Inr data)) st))
     = (map_of (sessions st))(k \<mapsto> data) \<and>
   map_of (sessions (checkSessionStatus_resume k (Response True (Inr data)) st))
     = (map_of (sessions st))(k \<mapsto> data) \<and>
   (reachable st \<longrightarrow>
      distinct (map fst (sessions (scopeIssue_resume k (Response True (Inr data)) st))) \<and>
      distinct (map fst (sessions (completeIssue_resume k (Response True (Inr data)) st))) \<and>
      distinct (map fst (sessions (checkSessionStatus_resume k (Response True (Inr data)) st))))"
proof -
  have "reachable st \<Longrightarrow> reachable (step (ScopeSettled k (Response True (Inr data))) st)"
    and "reachable st \<Longrightarrow> reachable (step (CompleteSettled k (Response True (Inr data))) st)"
    and "reachable st \<Longrightarrow> reachable (step (StatusSettled k (Response True (Inr data))) st)"
    by (rule reachable.moved, assumption)+
  then have "reachable st \<Longrightarrow>
      distinct (map fst (sessions (scopeIssue_resume k (Response True (Inr data)) st))) \<and>
      distinct (map fst (sessions (completeIssue_resume k (Response True (Inr data)) st))) \<and>
      distinct (map fst (sessions (checkSessionStatus_resume k (Response True (Inr data)) st)))"
    using reachable_distinct by fastforce
  then show ?thesis
    by (simp add: reachable_distinct scopeIssue_resume_def completeIssue_resume_def
          checkSessionStatus_resume_def spread_set_map_of)
qed

theorem sessions_one_record_per_issue_witness:
  "reachable scoped_state \<and> distinct (map fst (sessions scoped_state)) \<and>
   map_of (sessions (completeIssue_resume 1 (Response True (Inr finished_session)) scoped_state))
     = [1 \<mapsto> finished_session] \<and>
   sessions (completeIssue_resume 1 (Response True (Inr finished_session)) scoped_state)
     = [(1, finished_session)] \<and>
   distinct (map fst
     (sessions (completeIssue_resume 1 (Response True (Inr finished_session)) scoped_state)))"
  using sessions_one_record_per_issue [of scoped_state 1 finished_session]
    reachable_scoped_state
  by (simp add: scoped_state_eq completeIssue_resume_def spread_set_def)

text \<open>
  C7: a status refresh replaces the stored record by the payload of the response. So the
  optional fields \<^verbatim>\<open>confidence_score\<close>, \<^verbatim>\<open>action_plan\<close> and \<^verbatim>\<open>message\<close> of the stored record
  are those of the payload: unchanged when the payload repeats what was stored, and
  dropped when the payload omits them.
\<close>

theorem refresh_replaces_record:
  "map_of (sessions (checkSessionStatus_resume k (Response True (Inr data)) st)) k
     = Some data \<and>
   (map_of (sessions st) k = Some old \<and>
    confidence_score data = confidence_score old \<and>
    action_plan data = action_plan old \<and> message data = message old \<longrightarrow>
      (\<exists>new. map_of (sessions (checkSessionStatus_resume k (Response True (Inr data)) st)) k
               = Some new \<and>
             confidence_score new = confidence_score old \<and>
             action_plan new = action_plan old \<and> message new = message old)) \<and>
   (confidence_score data = None \<longrightarrow>
      map_option confidence_score
        (map_of (sessions (checkSessionStatus_resume k (Response True (Inr data)) st)) k)
        = Some None) \<and>
   (action_plan data = None \<longrightarrow>
      map_option action_plan
        (map_of (sessions (checkSessionStatus_resume k (Response True (Inr data)) st)) k)
        = Some None) \<and>
   (message data = None \<longrightarrow>
      map_option message
        (map_of (sessions (checkSessionStatus_resume k (Response True (Inr data)) st)) k)
        = Some None)"
  by (simp add: checkSessionStatus_resume_def spread_set_map_of)

theorem refresh_replaces_record_witness:
  "map_of (sessions scoped_state) 1 = Some scoping_session \<and>
   confidence_score (scoping_session\<lparr>status := ''blocked''\<rparr>) = confidence_score scoping_session \<and>
   action_plan (scoping_session\<lparr>status := ''blocked''\<rparr>) = action_plan scoping_session \<and>
   message (scoping_session\<lparr>status := ''blocked''\<rparr>) = message scoping_session \<and>
   map_option message
     (map_of (sessions (checkSessionStatus_resume 1
        (Response True (Inr (scoping_session\<lparr>status := ''blocked''\<rparr>))) scoped_state)) 1)
     = Some (Some ''Scoping issue #1'') \<and>
   message scoping_session = Some ''Scoping issue #1'' \<and>
   message finished_session = None \<and>
   map_option message
     (map_of (sessions (checkSessionStatus_resume 1
        (Response True (Inr finished_session)) scoped_state)) 1)
     = Some None"
  using refresh_replaces_record
          [of 1 "scoping_session\<lparr>status := ''blocked''\<rparr>" scoped_state scoping_session]
        refresh_replaces_record [of 1 finished_session scoped_state scoping_session]
  by (auto simp: scoped_state_eq scoping_session_def finished_session_def)

text \<open>
  C8: the scope button of an issue is disabled exactly when a request is in flight
  (\<^verbatim>\<open>loading\<close>) or the sessions map has a record for the issue, whatever that record
  holds; pressing it then does nothing, and otherwise runs \<^verbatim>\<open>scopeIssue\<close>.
\<close>

theorem scope_disabled_iff_record_or_loading:
  "(scope_disabled st k \<longleftrightarrow> loading st \<or> (\<exists>s. map_of (sessions st) k = Some s)) \<and>
   (\<not> scope_disabled st k \<longleftrightarrow> \<not> loading st \<and> map_of (sessions st) k = None) \<and>
   (scope_disabled st k \<longrightarrow> click_scope k st = (st, None)) \<and>
   (\<not> scope_disabled st k \<longrightarrow> click_scope k st = scopeIssue_call k st)"
  by (auto simp: scope_disabled_def click_scope_def)

theorem scope_disabled_iff_record_or_loading_witness:
  "scope_disabled scoped_state 1 \<and> click_scope 1 scoped_state = (scoped_state, None) \<and>
   scope_disabled
     (checkSessionStatus_resume 1 (Response True (Inr finished_session)) scoped_state) 1 \<and>
   \<not> scope_disabled scoped_state 2 \<and>
   snd (click_scope 2 scoped_state)
     = Some (Post ''/api/scope''
               [(''repo'', JString ''octo/demo''), (''issue_number'', JNumber 2),
                (''github_token'', JString ''ghp''), (''devin_api_key'', JString ''key'')])"
  using scope_disabled_iff_record_or_loading [of scoped_state 1]
    scope_disabled_iff_record_or_loading [of scoped_state 2]
    scope_disabled_iff_record_or_loading
      [of "checkSessionStatus_resume 1 (Response True (Inr finished_session)) scoped_state" 1]
  by (simp add: scoped_state_eq scopeIssue_call_def checkSessionStatus_resume_def
        spread_set_def)

text \<open>
  C9, as the specification states it: whenever the tracked session's status is not
  \<^verbatim>\<open>implementing\<close> and nothing is in flight, the complete button is enabled and pressing
  it sends that session's id. The component does otherwise when the Devin API key is
  empty: on the dashboard, with issue 1 tracked as \<^verbatim>\<open>scoping\<close>, the button is enabled and
  pressing it sends no request at all.
\<close>

theorem complete_enabled_without_key_sends_nothing:
  "reachable dashboard_unkeyed_state \<and> configured dashboard_unkeyed_state \<and>
   \<not> loading dashboard_unkeyed_state \<and>
   map_of (sessions dashboard_unkeyed_state) 1 = Some scoping_session \<and>
   status scoping_session = ''scoping'' \<and>
   \<not> complete_disabled dashboard_unkeyed_state 1 \<and>
   snd (click_complete 1 dashboard_unkeyed_state) = None \<and>
   body_field (snd (click_complete 1 dashboard_unkeyed_state)) ''session_id''
     \<noteq> Some (JString (session_id scoping_session))"
  using reachable_dashboard_unkeyed_state
  by (simp add: dashboard_unkeyed_state_eq scoping_session_def complete_disabled_def
        click_complete_def completeIssue_call_def)

text \<open>
  C9, amended: the complete button of an issue is disabled exactly when a request is in
  flight (\<^verbatim>\<open>loading\<close>) or the tracked session's status is \<^verbatim>\<open>implementing\<close>. With a session
  of any other status tracked and nothing in flight, the button is enabled and pressing
  it runs \<^verbatim>\<open>completeIssue\<close>: with a Devin API key set, that posts to \<^verbatim>\<open>/api/complete\<close> a body
  whose \<^verbatim>\<open>session_id\<close> is the tracked session's id; with the key empty it sends nothing
  and sets the error text \<^verbatim>\<open>Please enter Devin API key\<close>.
\<close>

theorem complete_disabled_only_implementing:
  "(complete_disabled st k \<longleftrightarrow>
      loading st \<or> (\<exists>s. map_of (sessions st) k = Some s \<and> status s = ''implementing'')) \<and>
   (\<not> loading st \<and> map_of (sessions st) k = Some s \<and> status s \<noteq> ''implementing'' \<longrightarrow>
      \<not> complete_disabled st k \<and>
      click_complete k st = completeIssue_call k st \<and>
      (devinApiKey st \<noteq> [] \<longrightarrow>
         (\<exists>flds. snd (click_complete k st) = Some (Post ''/api/complete'' flds)) \<and>
         body_field (snd (click_complete k st)) ''session_id''
           = Some (JString (session_id s))) \<and>
      (devinApiKey st = [] \<longrightarrow>
         snd (click_complete k st) = None \<and>
         error (fst (click_complete k st)) = ''Please enter Devin API key'' \<and>
         sessions (fst (click_complete k st)) = sessions st))"
  by (auto simp: complete_disabled_def click_complete_def completeIssue_call_def
        sessionId_of_def split: option.splits)

theorem complete_disabled_only_implementing_witness:
  "\<not> loading scoped_state \<and> map_of (sessions scoped_state) 1 = Some scoping_session \<and>
   status scoping_session \<noteq> ''implementing'' \<and> devinApiKey scoped_state \<noteq> [] \<and>
   \<not> complete_disabled scoped_state 1 \<and>
   body_field (snd (click_complete 1 scoped_state)) ''session_id'' = Some (JString ''s1'') \<and>
   \<not> loading dashboard_unkeyed_state \<and>
   map_of (sessions dashboard_unkeyed_state) 1 = Some scoping_session \<and>
   devinApiKey dashboard_unkeyed_state = [] \<and>
   \<not> complete_disabled dashboard_unkeyed_state 1 \<and>
   snd (click_complete 1 dashboard_unkeyed_state) = None \<and>
   error (fst (click_complete 1 dashboard_unkeyed_state)) = ''Please enter Devin API key''"
proof -
  have h: "\<not> loading scoped_state \<and> map_of (sessions scoped_state) 1 = Some scoping_session \<and>
      status scoping_session \<noteq> ''implementing''"
    by (simp add: scoped_state_eq scoping_session_def)
  have d: "devinApiKey scoped_state \<noteq> []"
    by (simp add: scoped_state_eq)
  have s: "session_id scoping_session = ''s1''"
    by (simp add: scoping_session_def)
  have u: "\<not> loading dashboard_unkeyed_state \<and>
      map_of (sessions dashboard_unkeyed_state) 1 = Some scoping_session \<and>
      devinApiKey dashboard_unkeyed_state = []"
    by (simp add: dashboard_unkeyed_state_eq)
  from complete_disabled_only_implementing [of scoped_state 1 scoping_session] h d
  have "\<not> complete_disabled scoped_state 1 \<and>
      body_field (snd (click_complete 1 scoped_state)) ''session_id''
        = Some (JString (session_id scoping_session))"
    by blast
  moreover
  from complete_disabled_only_implementing [of dashboard_unkeyed_state 1 scoping_session] h u
  have "\<not> complete_disabled dashboard_unkeyed_state 1 \<and>
      snd (click_complete 1 dashboard_unkeyed_state) = None \<and>
      error (fst (click_complete 1 dashboard_unkeyed_state)) = ''Please enter Devin API key''"
    by blast
  ultimately show ?thesis using h d s u by simp
qed





end
